theory Spec2Isabelle
  imports Main "HOL-Library.Sublist"
begin

section \<open>JavaScript strings\<close>

text \<open>
  A JavaScript string is a sequence of UTF-16 code units. It is modelled as a
  \<^typ>\<open>string\<close>, one \<^typ>\<open>char\<close> per code unit, which covers the code units below
  256 (Latin-1). \<open>length\<close> is \<open>.length\<close>, \<open>take n\<close> is \<open>.substring(0, n)\<close>.
\<close>

definition toLowerCase_char :: "char \<Rightarrow> char" where
  \<comment> \<open>\<open>String.prototype.toLowerCase\<close> on one Latin-1 code unit: A-Z and the accented
      capitals 192-222 (but the multiplication sign 215) move up by 32.\<close>
  "toLowerCase_char c =
     (let n = of_char c :: nat
      in if (65 \<le> n \<and> n \<le> 90) \<or> (192 \<le> n \<and> n \<le> 222 \<and> n \<noteq> 215)
         then char_of (n + 32) else c)"

definition toLowerCase :: "string \<Rightarrow> string" where
  "toLowerCase s = map toLowerCase_char s"

fun includes_str :: "string \<Rightarrow> string \<Rightarrow> bool" where
  \<comment> \<open>\<open>s.includes(frag)\<close>: \<open>frag\<close> occurs in \<open>s\<close> as a contiguous run.\<close>
  "includes_str [] frag = (frag = [])"
| "includes_str (c # cs) frag = (prefix frag (c # cs) \<or> includes_str cs frag)"

definition is_js_space :: "char \<Rightarrow> bool" where
  \<comment> \<open>The white space and line terminators that \<open>trim\<close> strips, below 256:
      TAB, LF, VT, FF, CR, SPACE and NBSP.\<close>
  "is_js_space c = (of_char c \<in> {9::nat, 10, 11, 12, 13, 32, 160})"

definition trim :: "string \<Rightarrow> string" where
  "trim s = rev (dropWhile is_js_space (rev (dropWhile is_js_space s)))"

section \<open>The Source Classifier (background.js)\<close>

datatype category = Email | Chat | Jira | Web

definition detectSource :: "string option \<Rightarrow> category" where
  \<comment> \<open>\<open>!url\<close> holds for an absent url and for the empty string.\<close>
  "detectSource url =
     (case url of
        None \<Rightarrow> Web
      | Some u \<Rightarrow>
          if u = [] then Web
          else
            let lowerUrl = toLowerCase u
            in if includes_str lowerUrl ''mail.google.com'' \<or>
                  includes_str lowerUrl ''outlook.'' \<or>
                  includes_str lowerUrl ''/mail'' then Email
               else if includes_str lowerUrl ''slack.com'' \<or>
                  includes_str lowerUrl ''teams.microsoft.com'' \<or>
                  includes_str lowerUrl ''discord.com'' then Chat
               else if includes_str lowerUrl ''atlassian.net'' \<or>
                  includes_str lowerUrl ''jira'' then Jira
               else Web)"

text \<open>
  The classifier as the specification words it: a fixed ordered list of domain
  fragments, each with its category; a fragment matches when it occurs in the url up to
  letter case; the first matching fragment decides, and \<open>web\<close> is the default.
\<close>

definition spec_fragments :: "(string \<times> category) list" where
  "spec_fragments =
     [(''mail.google.com'', Email), (''outlook.'', Email), (''/mail'', Email),
      (''slack.com'', Chat), (''teams.microsoft.com'', Chat), (''discord.com'', Chat),
      (''atlassian.net'', Jira), (''jira'', Jira)]"

definition spec_contains_ci :: "string \<Rightarrow> string \<Rightarrow> bool" where
  \<comment> \<open>Some contiguous part of the url equals the fragment once lower-cased.\<close>
  "spec_contains_ci u frag = (\<exists>ps v ss. u = ps @ v @ ss \<and> toLowerCase v = frag)"

definition spec_classify :: "string option \<Rightarrow> category" where
  "spec_classify url =
     (case url of
        None \<Rightarrow> Web
      | Some u \<Rightarrow>
          (case find (\<lambda>(frag, cat). spec_contains_ci u frag) spec_fragments of
             None \<Rightarrow> Web
           | Some (frag, cat) \<Rightarrow> cat))"

section \<open>Task records and Forge storage (donotmiss-forge/src/index.js)\<close>

datatype status = Pending | Sent | Declined

record task =
  task_id :: string
  title :: string
  description :: string
  source :: string
  url :: string
  priority :: string
  deadline :: "string option"
  status :: status
  createdAt :: string
  createdVia :: string
  declinedAt :: "string option"
  jiraKey :: "string option"
  jiraId :: "string option"
  jiraStatus :: "string option"
  jiraStatusCategory :: "string option"
  sentAt :: "string option"

text \<open>
  Forge storage holds the task list under the key \<open>tasks\<close> and the configured backend
  address under \<open>flaskBackendUrl\<close>; a key never written is absent. \<open>storage.get\<close> hands
  out a copy, so a resolver changes the stored list only through \<open>storage.set\<close>.
\<close>

record storage =
  tasks :: "task list option"
  flaskBackendUrl :: "string option"

definition get_tasks :: "storage \<Rightarrow> task list" where
  \<comment> \<open>\<open>await storage.get('tasks') || []\<close>\<close>
  "get_tasks st = (case tasks st of None \<Rightarrow> [] | Some ts \<Rightarrow> ts)"

definition set_tasks :: "task list \<Rightarrow> storage \<Rightarrow> storage" where
  \<comment> \<open>\<open>await storage.set('tasks', ts)\<close>\<close>
  "set_tasks ts st = st\<lparr>tasks := Some ts\<rparr>"

text \<open>The object a resolver returns; a property it does not set is absent.\<close>

record reply =
  success :: bool
  error :: "string option"
  reply_task :: "task option"
  reply_jiraKey :: "string option"
  added :: "nat option"
  total :: "nat option"

definition succeeded :: reply where
  "succeeded = \<lparr>success = True, error = None, reply_task = None, reply_jiraKey = None,
     added = None, total = None\<rparr>"

definition failure :: "string \<Rightarrow> reply" where
  "failure msg = \<lparr>success = False, error = Some msg, reply_task = None, reply_jiraKey = None,
     added = None, total = None\<rparr>"

fun findIndex :: "('a \<Rightarrow> bool) \<Rightarrow> 'a list \<Rightarrow> nat option" where
  \<comment> \<open>\<open>Array.prototype.findIndex\<close>; \<open>None\<close> stands for \<open>-1\<close>.\<close>
  "findIndex P [] = None"
| "findIndex P (x # xs) = (if P x then Some 0 else map_option Suc (findIndex P xs))"

definition truthy :: "string option \<Rightarrow> bool" where
  \<comment> \<open>A property that holds a string or is absent: absent and the empty string are falsy.\<close>
  "truthy v = (case v of None \<Rightarrow> False | Some s \<Rightarrow> s \<noteq> [])"

definition or_else :: "string option \<Rightarrow> string \<Rightarrow> string" where
  \<comment> \<open>\<open>v || d\<close>\<close>
  "or_else v d = (case v of None \<Rightarrow> d | Some s \<Rightarrow> if s = [] then d else s)"

subsection \<open>Resolvers on Forge storage\<close>

definition deleteTask :: "storage \<Rightarrow> string \<Rightarrow> reply \<times> storage" where
  "deleteTask st taskId =
     (let ts = get_tasks st;
          filtered = filter (\<lambda>t. task_id t \<noteq> taskId) ts
      in (succeeded, set_tasks filtered st))"

definition declineTask :: "storage \<Rightarrow> string \<Rightarrow> string \<Rightarrow> reply \<times> storage" where
  \<comment> \<open>\<open>now\<close> is what \<open>new Date().toISOString()\<close> returns.\<close>
  "declineTask st taskId now =
     (let ts = get_tasks st
      in case findIndex (\<lambda>t. task_id t = taskId) ts of
           None \<Rightarrow> (failure ''Task not found'', st)
         | Some taskIndex \<Rightarrow>
             let ts' = ts[taskIndex := (ts ! taskIndex)\<lparr>status := Declined, declinedAt := Some now\<rparr>]
             in (succeeded\<lparr>reply_task := Some (ts' ! taskIndex)\<rparr>, set_tasks ts' st))"

definition restoreTask :: "storage \<Rightarrow> string \<Rightarrow> reply \<times> storage" where
  "restoreTask st taskId =
     (let ts = get_tasks st
      in case findIndex (\<lambda>t. task_id t = taskId) ts of
           None \<Rightarrow> (failure ''Task not found'', st)
         | Some taskIndex \<Rightarrow>
             let ts' = ts[taskIndex := (ts ! taskIndex)\<lparr>status := Pending, declinedAt := None\<rparr>]
             in (succeeded\<lparr>reply_task := Some (ts' ! taskIndex)\<rparr>, set_tasks ts' st))"

subsection \<open>Calls to the tracker and to the backend\<close>

text \<open>
  An awaited call either rejects (\<open>Threw\<close>, with the \<open>message\<close> of the error) or hands
  back its value. What the outer services answer is a parameter of each resolver, one
  outcome per call in the order of the calls; the calls a resolver issued are returned
  beside its reply.
\<close>

datatype 'a outcome = Threw string | Returned 'a

record 'b response =
  ok :: bool
  http_status :: nat
  json :: "'b outcome"

record create_result =
  key :: string
  issue_id :: string
  errorMessages :: "string list option"

text \<open>
  The fields of the issue that depend on the task. The second paragraph of the
  description (the upper-cased source and the link to the page) and the fixed footer are
  left out: nothing below reads them.
\<close>

record issue_fields =
  project :: string
  summary :: "string option"
  body_text :: "string option"
  priority_id :: string
  labels :: "string list"
  duedate :: "string option"
  assignee :: "string option"

datatype jira_call = CreateIssue issue_fields | AddComment string

record request =
  req_method :: string
  req_url :: string
  req_body :: "(string \<times> string) list"

definition PRIORITY_MAP :: "string \<rightharpoonup> string" where
  "PRIORITY_MAP = [''highest'' \<mapsto> ''1'', ''high'' \<mapsto> ''2'', ''medium'' \<mapsto> ''3'', ''low'' \<mapsto> ''4'']"

fun join :: "string \<Rightarrow> string list \<Rightarrow> string" where
  \<comment> \<open>\<open>xs.join(sep)\<close>\<close>
  "join sep [] = []"
| "join sep [x] = x"
| "join sep (x # y # ys) = x @ sep @ join sep (y # ys)"

definition create_error :: "create_result \<Rightarrow> string" where
  \<comment> \<open>\<open>result.errorMessages?.join(', ') || 'Failed to create issue'\<close>\<close>
  "create_error result =
     or_else (map_option (join '', '') (errorMessages result)) ''Failed to create issue''"

definition sendToJira ::
  "storage \<Rightarrow> string \<Rightarrow> string option \<Rightarrow> string \<Rightarrow> string \<Rightarrow>
   create_result response outcome \<Rightarrow> unit outcome \<Rightarrow> reply \<times> storage \<times> jira_call list" where
  \<comment> \<open>The resolver on Forge storage. \<open>create\<close> is the outcome of the request that creates
      the issue, \<open>comment\<close> that of the request that adds the comment (its response is not
      read).\<close>
  "sendToJira st taskId assigneeId projectKey now create comment =
     (let ts = get_tasks st
      in case findIndex (\<lambda>t. task_id t = taskId) ts of
           None \<Rightarrow> (failure ''Task not found'', st, [])
         | Some taskIndex \<Rightarrow>
             let task = ts ! taskIndex;
                 issueBody =
                   \<lparr>project = projectKey,
                    summary = Some (title task),
                    body_text = Some (if description task \<noteq> [] then description task else title task),
                    priority_id = or_else (PRIORITY_MAP (priority task)) ''3'',
                    labels = [''donotmiss'', ''source-'' @ source task],
                    duedate = (if truthy (deadline task) then deadline task else None),
                    assignee = (if truthy assigneeId then assigneeId else None)\<rparr>
             in case create of
                  Threw msg \<Rightarrow> (failure msg, st, [CreateIssue issueBody])
                | Returned response \<Rightarrow>
                    (case json response of
                       Threw msg \<Rightarrow> (failure msg, st, [CreateIssue issueBody])
                     | Returned result \<Rightarrow>
                         if \<not> ok response
                         then (failure (create_error result), st, [CreateIssue issueBody])
                         else
                           (case comment of
                              Threw msg \<Rightarrow>
                                (failure msg, st, [CreateIssue issueBody, AddComment (key result)])
                            | Returned _ \<Rightarrow>
                                let ts' = ts[taskIndex := task
                                      \<lparr>status := Sent,
                                       jiraKey := Some (key result),
                                       jiraId := Some (issue_id result),
                                       jiraStatus := Some ''To Do'',
                                       jiraStatusCategory := Some ''new'',
                                       sentAt := Some now\<rparr>]
                                in (succeeded\<lparr>reply_jiraKey := Some (key result),
                                              reply_task := Some (ts' ! taskIndex)\<rparr>,
                                    set_tasks ts' st,
                                    [CreateIssue issueBody, AddComment (key result)]))))"

subsection \<open>Resolvers on the backend\<close>

text \<open>A task as the backend serves it (JSON); a property may be missing.\<close>

record metadata =
  md_deadline :: "string option"

record backend_task =
  bt_id :: string
  bt_title :: "string option"
  bt_text :: "string option"
  bt_description :: "string option"
  bt_source :: "string option"
  bt_url :: "string option"
  bt_priority :: "string option"
  bt_deadline :: "string option"
  bt_metadata :: "metadata option"
  bt_createdAt :: "string option"

definition FLASK_BACKEND_URL :: "string option \<Rightarrow> string" where
  \<comment> \<open>\<open>process.env.FLASK_BACKEND_URL || 'https://donotmiss-backend.onrender.com'\<close>\<close>
  "FLASK_BACKEND_URL env = or_else env ''https://donotmiss-backend.onrender.com''"

definition backendUrl :: "storage \<Rightarrow> string option \<Rightarrow> string" where
  \<comment> \<open>\<open>await storage.get('flaskBackendUrl') || FLASK_BACKEND_URL\<close>\<close>
  "backendUrl st env = or_else (flaskBackendUrl st) (FLASK_BACKEND_URL env)"

definition sendToJira_backend ::
  "storage \<Rightarrow> string option \<Rightarrow> string \<Rightarrow> string option \<Rightarrow> string \<Rightarrow> string \<Rightarrow>
   backend_task response outcome \<Rightarrow> create_result response outcome \<Rightarrow> unit outcome \<Rightarrow>
   reply \<times> request list \<times> jira_call list" where
  \<comment> \<open>The resolver that keeps the tasks on the backend. \<open>taskFetch\<close> is the outcome of
      the GET of the task, \<open>create\<close> that of the request that creates the issue,
      \<open>markSent\<close> that of the POST to \<open>mark-sent\<close> (its response is not read).\<close>
  "sendToJira_backend st env taskId assigneeId projectKey siteUrl taskFetch create markSent =
     (let getReq = \<lparr>req_method = ''GET'',
                    req_url = backendUrl st env @ ''/api/tasks/'' @ taskId, req_body = []\<rparr>
      in case taskFetch of
           Threw msg \<Rightarrow> (failure ''Failed to fetch task'', [getReq], [])
         | Returned taskResponse \<Rightarrow>
             if \<not> ok taskResponse then (failure ''Task not found'', [getReq], [])
             else
               (case json taskResponse of
                  Threw msg \<Rightarrow> (failure ''Failed to fetch task'', [getReq], [])
                | Returned task \<Rightarrow>
                    let issueBody =
                          \<lparr>project = projectKey,
                           summary = bt_title task,
                           body_text = (if truthy (bt_description task)
                                        then bt_description task else bt_title task),
                           priority_id =
                             or_else (case bt_priority task of None \<Rightarrow> None
                                      | Some p \<Rightarrow> PRIORITY_MAP p) ''3'',
                           labels = [''donotmiss'', ''source-'' @ or_else (bt_source task) ''web''],
                           duedate = (if truthy (bt_deadline task) then bt_deadline task else None),
                           assignee = (if truthy assigneeId then assigneeId else None)\<rparr>
                    in case create of
                         Threw msg \<Rightarrow> (failure msg, [getReq], [CreateIssue issueBody])
                       | Returned response \<Rightarrow>
                           (case json response of
                              Threw msg \<Rightarrow> (failure msg, [getReq], [CreateIssue issueBody])
                            | Returned result \<Rightarrow>
                                if \<not> ok response
                                then (failure (create_error result), [getReq],
                                      [CreateIssue issueBody])
                                else
                                  let markReq =
                                        \<lparr>req_method = ''POST'',
                                         req_url = backendUrl st env @ ''/api/tasks/'' @ taskId
                                           @ ''/mark-sent'',
                                         req_body =
                                           [(''jiraKey'', key result),
                                            (''jiraUrl'', ''https://'' @ siteUrl @ ''/browse/''
                                               @ key result)]\<rparr>
                                  in case markSent of
                                       Threw msg \<Rightarrow>
                                         (failure msg, [getReq, markReq], [CreateIssue issueBody])
                                     | Returned _ \<Rightarrow>
                                         (succeeded\<lparr>reply_jiraKey := Some (key result)\<rparr>,
                                          [getReq, markReq], [CreateIssue issueBody]))))"

definition deleteTask_backend ::
  "storage \<Rightarrow> string option \<Rightarrow> string \<Rightarrow> unit response outcome \<Rightarrow> reply \<times> request list" where
  \<comment> \<open>\<open>deleteTask\<close> of the resolver that keeps the tasks on the backend.\<close>
  "deleteTask_backend st env taskId fetched =
     (let req = \<lparr>req_method = ''DELETE'',
                 req_url = backendUrl st env @ ''/api/tasks/'' @ taskId, req_body = []\<rparr>
      in case fetched of
           Threw msg \<Rightarrow> (failure msg, [req])
         | Returned response \<Rightarrow>
             (succeeded\<lparr>success := ok response \<or> http_status response = 404\<rparr>, [req]))"

definition deleteFromBackend ::
  "storage \<Rightarrow> string option \<Rightarrow> string \<Rightarrow> unit response outcome \<Rightarrow> reply \<times> request list" where
  "deleteFromBackend st env taskId fetched =
     (let req = \<lparr>req_method = ''DELETE'',
                 req_url = backendUrl st env @ ''/api/tasks/'' @ taskId, req_body = []\<rparr>
      in case fetched of
           Threw msg \<Rightarrow> (failure msg, [req])
         | Returned response \<Rightarrow>
             (succeeded\<lparr>success := ok response \<or> http_status response = 404\<rparr>, [req]))"

subsection \<open>Failure of the issue creation\<close>

definition create_failed :: "create_result response outcome \<Rightarrow> bool" where
  \<comment> \<open>The request that creates the issue threw, its body could not be read, or its
      response is not \<open>ok\<close> (a status outside 200-299).\<close>
  "create_failed c =
     (case c of
        Threw msg \<Rightarrow> True
      | Returned r \<Rightarrow> (case json r of Threw msg \<Rightarrow> True | Returned result \<Rightarrow> \<not> ok r))"

subsection \<open>Synchronising Forge storage from the backend\<close>

fun decimal :: "nat \<Rightarrow> string" where
  \<comment> \<open>A number as a template literal prints it.\<close>
  "decimal n =
     (if n < 10 then [char_of (48 + n)] else decimal (n div 10) @ [char_of (48 + n mod 10)])"

declare decimal.simps [simp del]

definition synced_task :: "backend_task \<Rightarrow> string \<Rightarrow> task" where
  \<comment> \<open>The object \<open>syncFromBackend\<close> puts in front of the list for the backend task
      \<open>bt\<close>; \<open>now\<close> is what \<open>new Date().toISOString()\<close> returns at that moment.\<close>
  "synced_task bt now =
     \<lparr>task_id = bt_id bt,
      title = or_else (bt_title bt) (or_else (map_option (take 80) (bt_text bt)) ''Untitled''),
      description = or_else (bt_description bt) (or_else (bt_text bt) []),
      source = or_else (bt_source bt) ''web'',
      url = or_else (bt_url bt) [],
      priority = or_else (bt_priority bt) ''medium'',
      deadline = (case bt_metadata bt of
                    None \<Rightarrow> None
                  | Some m \<Rightarrow> if truthy (md_deadline m) then md_deadline m else None),
      status = Pending,
      createdAt = or_else (bt_createdAt bt) now,
      createdVia = ''donotmiss-flask'',
      declinedAt = None, jiraKey = None, jiraId = None, jiraStatus = None,
      jiraStatusCategory = None, sentAt = None\<rparr>"

fun sync_loop ::
  "string set \<Rightarrow> (nat \<Rightarrow> string) \<Rightarrow> nat \<Rightarrow> backend_task list \<Rightarrow> task list \<times> nat \<Rightarrow>
   task list \<times> nat" where
  \<comment> \<open>The \<open>for (const bt of backendTasks)\<close> loop over the pair
      \<open>(existingTasks, addedCount)\<close>. \<open>existingIds\<close> is built before the loop and not
      changed by it; \<open>clock k\<close> is the time read in round \<open>k\<close>.\<close>
  "sync_loop existingIds clock k [] (existingTasks, addedCount) = (existingTasks, addedCount)"
| "sync_loop existingIds clock k (bt # bts) (existingTasks, addedCount) =
     sync_loop existingIds clock (Suc k) bts
       (if bt_id bt \<notin> existingIds
        then (synced_task bt (clock k) # existingTasks, Suc addedCount)
        else (existingTasks, addedCount))"

definition syncFromBackend ::
  "storage \<Rightarrow> string option \<Rightarrow> backend_task list response outcome \<Rightarrow> (nat \<Rightarrow> string) \<Rightarrow>
   reply \<times> storage \<times> request list" where
  "syncFromBackend st env fetched clock =
     (let req = \<lparr>req_method = ''GET'',
                 req_url = backendUrl st env @ ''/api/tasks?status=pending'', req_body = []\<rparr>
      in case fetched of
           Threw msg \<Rightarrow> (failure msg, st, [req])
         | Returned response \<Rightarrow>
             if \<not> ok response
             then (failure (''Backend returned '' @ decimal (http_status response)), st, [req])
             else
               (case json response of
                  Threw msg \<Rightarrow> (failure msg, st, [req])
                | Returned backendTasks \<Rightarrow>
                    let existingTasks = get_tasks st;
                        existingIds = set (map task_id existingTasks);
                        (existingTasks', addedCount) =
                          sync_loop existingIds clock 0 backendTasks (existingTasks, 0)
                    in (succeeded\<lparr>added := Some addedCount,
                                  total := Some (length existingTasks')\<rparr>,
                        set_tasks existingTasks' st, [req])))"

fun inserted :: "string set \<Rightarrow> (nat \<Rightarrow> string) \<Rightarrow> nat \<Rightarrow> backend_task list \<Rightarrow> task list" where
  \<comment> \<open>The records the loop puts in, in the order of the backend list, the loop
      starting in round \<open>k\<close>.\<close>
  "inserted existingIds clock k [] = []"
| "inserted existingIds clock k (bt # bts) =
     (if bt_id bt \<notin> existingIds then [synced_task bt (clock k)] else [])
     @ inserted existingIds clock (Suc k) bts"

section \<open>The dashboard (App)\<close>





definition status_of :: "storage \<Rightarrow> string \<Rightarrow> status option" where
  \<comment> \<open>The status of the stored task an id stands for (the first one with that id, as
      \<open>findIndex\<close> picks it); \<open>None\<close> when there is no such record.\<close>
  "status_of st taskId =
     map_option status (find (\<lambda>t. task_id t = taskId) (get_tasks st))"


section \<open>The popup (popup script)\<close>

subsection \<open>Adding a listed task\<close>

record pending_task =
  pt_text :: string
  pt_source :: string
  pt_url :: string

record submitted =
  sub_title :: string
  sub_description :: string
  sub_deadline :: "string option"
  sub_priority :: string
  sub_source :: string
  sub_url :: string
  sub_timestamp :: string
  sub_userApproved :: bool

datatype js_error = TypeError

definition handleTaskAction_add :: "pending_task list \<Rightarrow> nat \<Rightarrow> string \<Rightarrow> js_error + submitted" where
  \<comment> \<open>The \<open>add\<close> branch of \<open>handleTaskAction\<close> up to the \<open>submitTask\<close> message it sends.
      \<open>pendingTasks\<close> is the stored list of that name; reading \<open>text\<close> of \<open>tasks[index]\<close>
      throws when the index is outside the list.\<close>
  "handleTaskAction_add pendingTasks index now =
     (if index < length pendingTasks
      then
        let task = pendingTasks ! index;
            generated = (if length (pt_text task) > 50
                         then trim (take 50 (pt_text task)) @ ''...''
                         else trim (pt_text task))
        in Inr \<lparr>sub_title = generated,
                sub_description = pt_text task,
                sub_deadline = None,
                sub_priority = ''medium'',
                sub_source = pt_source task,
                sub_url = pt_url task,
                sub_timestamp = now,
                sub_userApproved = True\<rparr>
      else Inl TypeError)"

subsection \<open>Waking the backend\<close>

text \<open>
  \<open>wakeUpBackend\<close> runs on the event loop of the popup: after its first health check it
  arms a timer and starts one more check, and the rest happens in callbacks. The state
  holds what these callbacks read and write:
  the \<open>display\<close> style of the two screens, the attempt counter and the attempt shown,
  the last argument of \<open>updateStatus\<close>, whether the timer \<open>checkInterval\<close> is armed, which
  health checks are under way, the promise \<open>wakeUpBackend\<close> returned (\<open>None\<close> while
  pending) and how often the caller, the \<open>DOMContentLoaded\<close> handler, went on to
  \<open>loadTasks\<close>.
\<close>

datatype display = Unset | DisplayNone | DisplayFlex | DisplayBlock

record popup =
  wakeupScreen :: display
  mainContent :: display
  attempt :: nat
  attemptText :: "nat option"
  connected :: "bool option"
  checkInterval :: bool
  immediate_check :: bool
  interval_checks :: nat
  promise :: "bool option"
  loadTasks_calls :: nat

definition popup_loaded :: popup where
  \<comment> \<open>The popup when \<open>DOMContentLoaded\<close> fires.\<close>
  "popup_loaded =
     \<lparr>wakeupScreen = Unset, mainContent = Unset, attempt = 0, attemptText = None,
      connected = None, checkInterval = False, immediate_check = False,
      interval_checks = 0, promise = None, loadTasks_calls = 0\<rparr>"

definition resolve :: "bool \<Rightarrow> popup \<Rightarrow> popup" where
  \<comment> \<open>A call of \<open>resolve(v)\<close>. The language settles a promise once: the first call
      fulfils it and lets the awaiting caller go on; a call on a settled promise does
      nothing.\<close>
  "resolve v p =
     (case promise p of
        None \<Rightarrow> p\<lparr>promise := Some v, loadTasks_calls := Suc (loadTasks_calls p)\<rparr>
      | Some _ \<Rightarrow> p)"

definition updateStatus :: "bool \<Rightarrow> popup \<Rightarrow> popup" where
  "updateStatus c p = p\<lparr>connected := Some c\<rparr>"

definition on_awake :: "popup \<Rightarrow> popup" where
  \<comment> \<open>The body of \<open>if (awake) { ... }\<close>, the same in both callbacks.\<close>
  "on_awake p =
     resolve True
       (updateStatus True
          (p\<lparr>checkInterval := False, wakeupScreen := DisplayNone, mainContent := DisplayBlock\<rparr>))"

definition wakeUpBackend :: "bool \<Rightarrow> popup \<Rightarrow> popup" where
  \<comment> \<open>The synchronous part of \<open>wakeUpBackend\<close>, which starts with a pending promise of
      its own; \<open>isAwake\<close> is the result of the first health check.\<close>
  "wakeUpBackend isAwake p =
     (if isAwake then resolve True (p\<lparr>attempt := 0, promise := None\<rparr>)
      else p\<lparr>attempt := 0, promise := None, wakeupScreen := DisplayFlex,
             mainContent := DisplayNone, checkInterval := True, immediate_check := True\<rparr>)"

datatype event =
    IntervalFires
  | IntervalCheckDone bool
  | ImmediateCheckDone bool

fun step :: "popup \<Rightarrow> event \<Rightarrow> popup option" where
  \<comment> \<open>One turn of the event loop; \<open>None\<close> when the event cannot happen in the state:
      the timer fires only while armed, a check ends only if it is under way.\<close>
  "step p IntervalFires =
     (if checkInterval p
      then Some (p\<lparr>attempt := Suc (attempt p), attemptText := Some (Suc (attempt p)),
                   interval_checks := Suc (interval_checks p)\<rparr>)
      else None)"
| "step p (IntervalCheckDone awake) =
     (if interval_checks p > 0
      then (let p' = p\<lparr>interval_checks := interval_checks p - 1\<rparr>
            in Some (if awake then on_awake p' else p'))
      else None)"
| "step p (ImmediateCheckDone awake) =
     (if immediate_check p
      then (let p' = p\<lparr>immediate_check := False\<rparr>
            in Some (if awake then on_awake p' else p'))
      else None)"

fun run :: "popup \<Rightarrow> event list \<Rightarrow> popup option" where
  "run p [] = Some p"
| "run p (e # es) = (case step p e of None \<Rightarrow> None | Some p' \<Rightarrow> run p' es)"

subsection \<open>The two phases of waking\<close>

definition waking :: "nat \<Rightarrow> popup \<Rightarrow> bool" where
  \<comment> \<open>Still waiting: the stand-by screen shows, the timer is armed, the promise is
      pending and the caller has not gone on (\<open>c\<close> counts its earlier calls).\<close>
  "waking c p \<longleftrightarrow>
     promise p = None \<and> loadTasks_calls p = c \<and> checkInterval p \<and>
     wakeupScreen p = DisplayFlex \<and> mainContent p = DisplayNone"

definition woken :: "nat \<Rightarrow> popup \<Rightarrow> bool" where
  \<comment> \<open>Awake: the promise is fulfilled with \<open>true\<close>, the caller has gone on once, the
      timer is cleared and the main screen shows.\<close>
  "woken c p \<longleftrightarrow>
     promise p = Some True \<and> loadTasks_calls p = Suc c \<and> \<not> checkInterval p \<and>
     wakeupScreen p = DisplayNone \<and> mainContent p = DisplayBlock \<and> connected p = Some True"

fun awake_event :: "event \<Rightarrow> bool" where
  "awake_event IntervalFires = False"
| "awake_event (IntervalCheckDone awake) = awake"
| "awake_event (ImmediateCheckDone awake) = awake"

subsection \<open>Sample data\<close>

definition sample_task :: "string \<Rightarrow> status \<Rightarrow> task" where
  \<comment> \<open>A task as \<open>addTask\<close> stores it, with the given id and status.\<close>
  "sample_task i s =
     \<lparr>task_id = i, title = ''Book flight'', description = ''Book flight by Friday'',
      source = ''chat'', url = ''https://app.slack.com/client'', priority = ''medium'',
      deadline = None, status = s, createdAt = ''2024-01-01T00:00:00.000Z'',
      createdVia = ''donotmiss'', declinedAt = None, jiraKey = None, jiraId = None,
      jiraStatus = None, jiraStatusCategory = None, sentAt = None\<rparr>"

definition sample_text :: string where
  \<comment> \<open>65 characters; the 50th is a space.\<close>
  "sample_text = ''Please send the signed contract to the legal team by next Friday.''"

definition sample_text_plain :: string where
  \<comment> \<open>65 characters; the first and the 50th are letters.\<close>
  "sample_text_plain = ''Review the quarterly budget proposal and send it to finance today''"

definition sample_pending :: "string \<Rightarrow> pending_task" where
  "sample_pending t =
     \<lparr>pt_text = t, pt_source = ''email'', pt_url = ''https://mail.google.com/mail/u/0''\<rparr>"

definition sample_backend_task :: "string \<Rightarrow> backend_task" where
  "sample_backend_task i =
     \<lparr>bt_id = i, bt_title = Some ''Book flight'', bt_text = Some ''Book flight by Friday'',
      bt_description = Some ''Book flight by Friday'', bt_source = Some ''chat'',
      bt_url = Some ''https://app.slack.com/client'', bt_priority = Some ''medium'',
      bt_deadline = None, bt_metadata = None,
      bt_createdAt = Some ''2024-01-01T00:00:00.000Z''\<rparr>"

definition sample_fetched :: "backend_task list response outcome" where
  \<comment> \<open>The backend serves two pending tasks, \<open>task-1\<close> and \<open>task-2\<close>.\<close>
  "sample_fetched =
     Returned \<lparr>ok = True, http_status = 200,
       json = Returned [sample_backend_task ''task-1'', sample_backend_task ''task-2'']\<rparr>"

definition sample_storage :: "task list \<Rightarrow> storage" where
  "sample_storage ts = \<lparr>tasks = Some ts, flaskBackendUrl = None\<rparr>"

definition sample_rejected :: "create_result response outcome" where
  \<comment> \<open>The tracker refuses the issue with status 400.\<close>
  "sample_rejected =
     Returned \<lparr>ok = False, http_status = 400,
       json = Returned \<lparr>key = [], issue_id = [],
         errorMessages = Some [''Project is required'']\<rparr>\<rparr>"



section \<open>Lemmas\<close>

lemma includes_iff: "includes_str s frag \<longleftrightarrow> (\<exists>ps ss. s = ps @ frag @ ss)"
proof (induction s)
  case Nil
  then show ?case by auto
next
  case (Cons c cs)
  show ?case
  proof
    assume "includes_str (c # cs) frag"
    then consider "prefix frag (c # cs)" | "includes_str cs frag" by auto
    then show "\<exists>ps ss. c # cs = ps @ frag @ ss"
    proof cases
      case 1
      then obtain ss where "c # cs = frag @ ss" by (auto simp: prefix_def)
      then have "c # cs = [] @ frag @ ss" by simp
      then show ?thesis by blast
    next
      case 2
      with Cons.IH obtain ps ss where "cs = ps @ frag @ ss" by blast
      then have "c # cs = (c # ps) @ frag @ ss" by simp
      then show ?thesis by blast
    qed
  next
    assume "\<exists>ps ss. c # cs = ps @ frag @ ss"
    then obtain ps ss where eq: "c # cs = ps @ frag @ ss" by blast
    show "includes_str (c # cs) frag"
    proof (cases ps)
      case Nil
      with eq have "prefix frag (c # cs)" by (simp add: prefix_def)
      then show ?thesis by simp
    next
      case (Cons p ps')
      with eq have "cs = ps' @ frag @ ss" by simp
      with Cons.IH have "includes_str cs frag" by blast
      then show ?thesis by simp
    qed
  qed
qed

lemma includes_lower_iff: "includes_str (toLowerCase u) frag \<longleftrightarrow> spec_contains_ci u frag"
proof
  assume "includes_str (toLowerCase u) frag"
  then obtain ps ss where "map toLowerCase_char u = ps @ frag @ ss"
    by (auto simp: includes_iff toLowerCase_def)
  then have "\<exists>us rest. u = us @ rest \<and> ps = map toLowerCase_char us \<and>
      frag @ ss = map toLowerCase_char rest"
    by (rule map_eq_append_conv [THEN iffD1])
  then obtain us rest where u: "u = us @ rest" and rest: "map toLowerCase_char rest = frag @ ss"
    by metis
  from rest have "\<exists>vs ws. rest = vs @ ws \<and> frag = map toLowerCase_char vs \<and>
      ss = map toLowerCase_char ws"
    by (rule map_eq_append_conv [THEN iffD1])
  then obtain vs ws where "rest = vs @ ws" and "map toLowerCase_char vs = frag"
    by metis
  with u have "u = us @ vs @ ws \<and> toLowerCase vs = frag"
    by (simp add: toLowerCase_def)
  then show "spec_contains_ci u frag"
    unfolding spec_contains_ci_def by blast
next
  assume "spec_contains_ci u frag"
  then obtain ps v ss where "u = ps @ v @ ss" "toLowerCase v = frag"
    unfolding spec_contains_ci_def by blast
  then have "toLowerCase u = toLowerCase ps @ frag @ toLowerCase ss"
    by (auto simp: toLowerCase_def)
  then show "includes_str (toLowerCase u) frag"
    unfolding includes_iff by blast
qed

lemma findIndex_None_iff: "findIndex P xs = None \<longleftrightarrow> (\<forall>x \<in> set xs. \<not> P x)"
  by (induction xs) auto


lemma spec_contains_ci_Nil: "spec_contains_ci [] frag \<longleftrightarrow> frag = []"
  by (auto simp: spec_contains_ci_def toLowerCase_def)

section \<open>The Source Classifier\<close>

text \<open>
  C7. \<open>detectSource\<close> is the first-match classification over the ordered fragment list
  (email fragments, then chat, then jira), matching fragments as substrings up to letter
  case: a url containing an email fragment is classified \<open>email\<close>, a url containing none
  of the fragments is classified \<open>web\<close>, and so is an absent url.
\<close>

theorem detectSource_first_match:
  "detectSource tab_url = spec_classify tab_url \<and>
   (\<forall>u frag. (frag, Email) \<in> set spec_fragments \<and> spec_contains_ci u frag
      \<longrightarrow> detectSource (Some u) = Email) \<and>
   (\<forall>u. (\<forall>(frag, cat) \<in> set spec_fragments. \<not> spec_contains_ci u frag)
      \<longrightarrow> detectSource (Some u) = Web) \<and>
   detectSource None = Web"
proof -
  have eq: "detectSource v = spec_classify v" for v
  proof (cases v)
    case None
    then show ?thesis by (simp add: detectSource_def spec_classify_def)
  next
    case (Some u)
    show ?thesis
    proof (cases "u = []")
      case True
      with Some show ?thesis
        by (simp add: detectSource_def spec_classify_def spec_fragments_def
            spec_contains_ci_Nil)
    next
      case False
      with Some show ?thesis
        by (simp add: detectSource_def spec_classify_def spec_fragments_def
            includes_lower_iff Let_def)
    qed
  qed
  have email: "detectSource (Some u) = Email"
    if "(frag, Email) \<in> set spec_fragments" "spec_contains_ci u frag" for u frag
  proof -
    from that have "frag \<noteq> []" by (auto simp: spec_fragments_def)
    with that(2) have "u \<noteq> []" by (auto simp: spec_contains_ci_Nil)
    with that show ?thesis
      by (auto simp: detectSource_def spec_fragments_def includes_lower_iff Let_def)
  qed
  have web: "detectSource (Some u) = Web"
    if "\<forall>(frag, cat) \<in> set spec_fragments. \<not> spec_contains_ci u frag" for u
    using that
    by (simp add: detectSource_def spec_fragments_def includes_lower_iff Let_def)
  have "detectSource None = Web" by (simp add: detectSource_def)
  with eq email web show ?thesis by blast
qed

theorem detectSource_first_match_witness:
  "detectSource (Some ''https://MAIL.Google.com/mail/u/0/#inbox'') = Email \<and>
   spec_classify (Some ''https://MAIL.Google.com/mail/u/0/#inbox'') = Email \<and>
   detectSource (Some ''https://example.org/Docs'') = Web"
proof -
  have "includes_str (toLowerCase ''https://MAIL.Google.com/mail/u/0/#inbox'') ''mail.google.com''"
    by code_simp
  then have c: "spec_contains_ci ''https://MAIL.Google.com/mail/u/0/#inbox'' ''mail.google.com''"
    by (simp only: includes_lower_iff)
  have m: "(''mail.google.com'', Email) \<in> set spec_fragments"
    by (simp add: spec_fragments_def)
  have n: "\<forall>(frag, cat) \<in> set spec_fragments.
      \<not> includes_str (toLowerCase ''https://example.org/Docs'') frag"
    unfolding spec_fragments_def by code_simp
  then have n': "\<forall>(frag, cat) \<in> set spec_fragments.
      \<not> spec_contains_ci ''https://example.org/Docs'' frag"
    by (simp only: includes_lower_iff)
  from detectSource_first_match [of "Some ''https://MAIL.Google.com/mail/u/0/#inbox''"] c m n'
  show ?thesis by metis
qed

section \<open>Resolvers on Forge storage\<close>

text \<open>
  C9. When no stored task has the given id, \<open>declineTask\<close> and \<open>restoreTask\<close> each
  return \<open>{success: false, error: 'Task not found'}\<close> and leave the storage as it was.
\<close>

theorem decline_restore_not_found:
  assumes "\<forall>t \<in> set (get_tasks st). task_id t \<noteq> taskId"
  shows "declineTask st taskId now =
           (\<lparr>success = False, error = Some ''Task not found'', reply_task = None,
             reply_jiraKey = None, added = None, total = None\<rparr>, st) \<and>
         restoreTask st taskId =
           (\<lparr>success = False, error = Some ''Task not found'', reply_task = None,
             reply_jiraKey = None, added = None, total = None\<rparr>, st)"
proof -
  from assms have "findIndex (\<lambda>t. task_id t = taskId) (get_tasks st) = None"
    by (simp add: findIndex_None_iff)
  then show ?thesis
    by (simp add: declineTask_def restoreTask_def failure_def)
qed

theorem decline_restore_not_found_witness:
  "declineTask (sample_storage [sample_task ''task-1'' Pending]) ''task-2'' ''2024-01-02'' =
     (\<lparr>success = False, error = Some ''Task not found'', reply_task = None,
       reply_jiraKey = None, added = None, total = None\<rparr>,
      sample_storage [sample_task ''task-1'' Pending]) \<and>
   restoreTask (sample_storage [sample_task ''task-1'' Pending]) ''task-2'' =
     (\<lparr>success = False, error = Some ''Task not found'', reply_task = None,
       reply_jiraKey = None, added = None, total = None\<rparr>,
      sample_storage [sample_task ''task-1'' Pending])"
  using decline_restore_not_found
    [of "sample_storage [sample_task ''task-1'' Pending]" "''task-2''" "''2024-01-02''"]
  by (simp add: get_tasks_def sample_storage_def sample_task_def)

text \<open>
  C10. \<open>deleteTask\<close> on Forge storage answers \<open>{success: true}\<close> for every id. The list it
  stores is the old list without the tasks of that id, the others as they were and in
  their order; for an id that no stored task has, the stored list is the old list.
\<close>

theorem deleteTask_filters:
  "fst (deleteTask st taskId) =
     \<lparr>success = True, error = None, reply_task = None, reply_jiraKey = None,
      added = None, total = None\<rparr> \<and>
   get_tasks (snd (deleteTask st taskId)) =
     filter (\<lambda>t. task_id t \<noteq> taskId) (get_tasks st) \<and>
   flaskBackendUrl (snd (deleteTask st taskId)) = flaskBackendUrl st \<and>
   ((\<forall>t \<in> set (get_tasks st). task_id t \<noteq> taskId) \<longrightarrow>
      get_tasks (snd (deleteTask st taskId)) = get_tasks st)"
  by (simp add: deleteTask_def succeeded_def set_tasks_def get_tasks_def Let_def)

theorem deleteTask_filters_witness:
  "success (fst (deleteTask (sample_storage [sample_task ''task-1'' Pending]) ''task-2'')) \<and>
   get_tasks (snd (deleteTask (sample_storage [sample_task ''task-1'' Pending]) ''task-2'')) =
     [sample_task ''task-1'' Pending]"
  using deleteTask_filters [of "sample_storage [sample_task ''task-1'' Pending]" "''task-2''"]
  by (simp add: get_tasks_def sample_storage_def sample_task_def)

text \<open>
  C2. When the request that creates the issue fails, \<open>sendToJira\<close> answers
  \<open>success: false\<close> before it writes anything. On Forge storage nothing is stored, so
  the task keeps its status (a pending task stays pending) and no comment is sent to
  the tracker; the resolver on the backend has sent the backend nothing but the GET of
  the task, so no \<open>mark-sent\<close>.
\<close>

theorem sendToJira_create_failure:
  assumes "create_failed create"
  shows "\<not> success (fst (sendToJira st taskId assigneeId projectKey now create comment)) \<and>
         fst (snd (sendToJira st taskId assigneeId projectKey now create comment)) = st \<and>
         status_of (fst (snd (sendToJira st taskId assigneeId projectKey now create comment)))
           taskId = status_of st taskId \<and>
         (\<forall>k. AddComment k \<notin>
            set (snd (snd (sendToJira st taskId assigneeId projectKey now create comment)))) \<and>
         \<not> success (fst (sendToJira_backend st env taskId assigneeId projectKey siteUrl
                          taskFetch create markSent)) \<and>
         (\<forall>r \<in> set (fst (snd (sendToJira_backend st env taskId assigneeId projectKey siteUrl
                                  taskFetch create markSent))).
            req_method r = ''GET'')"
proof -
  have storage_variant:
    "\<not> success (fst (sendToJira st taskId assigneeId projectKey now create comment)) \<and>
     fst (snd (sendToJira st taskId assigneeId projectKey now create comment)) = st \<and>
     (\<forall>k. AddComment k \<notin>
        set (snd (snd (sendToJira st taskId assigneeId projectKey now create comment))))"
    using assms
    by (auto simp: sendToJira_def create_failed_def failure_def Let_def
        split: option.splits outcome.splits)
  have backend_variant:
    "\<not> success (fst (sendToJira_backend st env taskId assigneeId projectKey siteUrl
                      taskFetch create markSent)) \<and>
     (\<forall>r \<in> set (fst (snd (sendToJira_backend st env taskId assigneeId projectKey siteUrl
                              taskFetch create markSent))).
        req_method r = ''GET'')"
    using assms
    by (auto simp: sendToJira_backend_def create_failed_def failure_def Let_def
        split: outcome.splits)
  from storage_variant backend_variant show ?thesis by simp
qed

theorem sendToJira_create_failure_witness:
  "\<not> success (fst (sendToJira (sample_storage [sample_task ''task-1'' Pending]) ''task-1''
                    None ''DNM'' ''2024-01-02'' sample_rejected (Returned ()))) \<and>
   status_of (fst (snd (sendToJira (sample_storage [sample_task ''task-1'' Pending]) ''task-1''
                          None ''DNM'' ''2024-01-02'' sample_rejected (Returned ()))))
     ''task-1'' = Some Pending \<and>
   \<not> success (fst (sendToJira_backend (sample_storage [sample_task ''task-1'' Pending]) None
                    ''task-1'' None ''DNM'' ''example.atlassian.net''
                    (Returned \<lparr>ok = True, http_status = 200,
                       json = Returned (sample_backend_task ''task-1'')\<rparr>)
                    sample_rejected (Returned ())))"
proof -
  have f: "create_failed sample_rejected"
    by (simp add: create_failed_def sample_rejected_def)
  have s: "status_of (sample_storage [sample_task ''task-1'' Pending]) ''task-1'' = Some Pending"
    by (simp add: status_of_def get_tasks_def sample_storage_def sample_task_def)
  from sendToJira_create_failure [OF f,
      where st = "sample_storage [sample_task ''task-1'' Pending]" and taskId = "''task-1''"
        and assigneeId = None and projectKey = "''DNM''" and now = "''2024-01-02''"
        and comment = "Returned ()" and env = None and siteUrl = "''example.atlassian.net''"
        and taskFetch = "Returned \<lparr>ok = True, http_status = 200,
              json = Returned (sample_backend_task ''task-1'')\<rparr>"
        and markSent = "Returned ()"] s
  show ?thesis by simp
qed

section \<open>Resolvers on the backend\<close>

text \<open>
  C6. A DELETE that the backend answers with status 404 counts as success: \<open>deleteTask\<close>
  of the backend resolver and \<open>deleteFromBackend\<close> both answer \<open>success: true\<close>, whatever
  the id and whatever else the response holds.
\<close>

theorem delete_not_found_is_success:
  "success (fst (deleteTask_backend st env taskId (Returned (r\<lparr>http_status := 404\<rparr>)))) \<and>
   success (fst (deleteFromBackend st env taskId (Returned (r\<lparr>http_status := 404\<rparr>))))"
  by (simp add: deleteTask_backend_def deleteFromBackend_def succeeded_def Let_def)

section \<open>The popup\<close>

lemma trim_no_space_ends:
  assumes "s \<noteq> []" and "\<not> is_js_space (hd s)" and "\<not> is_js_space (last s)"
  shows "trim s = s"
proof -
  from assms(2) have "dropWhile is_js_space s = s"
    by (simp add: dropWhile_eq_self_iff)
  moreover from assms(1, 3) have "dropWhile is_js_space (rev s) = rev s"
    by (simp add: dropWhile_eq_self_iff hd_rev)
  ultimately show ?thesis by (simp add: trim_def)
qed

text \<open>
  C3, as the code has it. The \<open>add\<close> action of the popup sends as title the first 50
  characters of the text, trimmed, followed by \<open>...\<close> when the text is longer than 50
  characters, and the trimmed text otherwise. When the text is longer than 50 and
  neither its first nor its 50th character is white space, the title is the first 50
  characters followed by \<open>...\<close>, 53 characters in all.
\<close>

theorem generated_title:
  assumes "index < length pendingTasks" and "pt_text (pendingTasks ! index) = text"
  shows "\<exists>m. handleTaskAction_add pendingTasks index now = Inr m \<and>
           sub_description m = text \<and>
           (length text > 50 \<longrightarrow> sub_title m = trim (take 50 text) @ ''...'') \<and>
           (length text \<le> 50 \<longrightarrow> sub_title m = trim text) \<and>
           (length text > 50 \<and> \<not> is_js_space (text ! 0) \<and> \<not> is_js_space (text ! 49) \<longrightarrow>
              sub_title m = take 50 text @ ''...'' \<and> length (sub_title m) = 53)"
proof -
  have plain: "trim (take 50 text) = take 50 text"
    if long: "length text > 50" and "\<not> is_js_space (text ! 0)" "\<not> is_js_space (text ! 49)"
  proof (rule trim_no_space_ends)
    from long show ne: "take 50 text \<noteq> []" by auto
    from long that(2) show "\<not> is_js_space (hd (take 50 text))"
      by (cases "text") auto
    from long have len: "length (take 50 text) = 50" by simp
    from ne have "last (take 50 text) = take 50 text ! (length (take 50 text) - 1)"
      by (rule last_conv_nth)
    also from len have "\<dots> = take 50 text ! 49" by simp
    also have "\<dots> = text ! 49" by simp
    finally have "last (take 50 text) = text ! 49" .
    with that(3) show "\<not> is_js_space (last (take 50 text))" by simp
  qed
  from assms show ?thesis
    by (auto simp: handleTaskAction_add_def Let_def plain)
qed

theorem generated_title_witness:
  "(\<exists>m. handleTaskAction_add [sample_pending ''Call Sam''] 0 ''2024-01-02'' = Inr m \<and>
        sub_title m = ''Call Sam'') \<and>
   length sample_text_plain = 65 \<and>
   (\<exists>m. handleTaskAction_add [sample_pending sample_text_plain] 0 ''2024-01-02'' = Inr m \<and>
        sub_title m = ''Review the quarterly budget proposal and send it t...'' \<and>
        length (sub_title m) = 53)"
proof -
  have "trim ''Call Sam'' = ''Call Sam''"
    by (simp add: trim_def is_js_space_def)
  with generated_title [of 0 "[sample_pending ''Call Sam'']" "''Call Sam''" "''2024-01-02''"]
  have short: "\<exists>m. handleTaskAction_add [sample_pending ''Call Sam''] 0 ''2024-01-02'' = Inr m \<and>
        sub_title m = ''Call Sam''"
    by (auto simp: sample_pending_def)
  have len: "length sample_text_plain = 65" by (simp add: sample_text_plain_def)
  have ends: "\<not> is_js_space (sample_text_plain ! 0) \<and> \<not> is_js_space (sample_text_plain ! 49)"
    by (simp add: sample_text_plain_def is_js_space_def)
  have pre: "take 50 sample_text_plain = ''Review the quarterly budget proposal and send it t''"
    by (simp add: sample_text_plain_def)
  from generated_title [of 0 "[sample_pending sample_text_plain]" sample_text_plain
      "''2024-01-02''"] len ends
  have "\<exists>m. handleTaskAction_add [sample_pending sample_text_plain] 0 ''2024-01-02'' = Inr m \<and>
        sub_title m = take 50 sample_text_plain @ ''...'' \<and> length (sub_title m) = 53"
    by (auto simp: sample_pending_def)
  with pre have long: "\<exists>m. handleTaskAction_add [sample_pending sample_text_plain] 0
        ''2024-01-02'' = Inr m \<and>
        sub_title m = ''Review the quarterly budget proposal and send it t...'' \<and>
        length (sub_title m) = 53"
    by simp
  from short len long show ?thesis by blast
qed

theorem title_of_65_counterexample:
  "length sample_text = 65 \<and>
   (\<exists>m. handleTaskAction_add [sample_pending sample_text] 0 ''2024-01-02'' = Inr m \<and>
         sub_title m = ''Please send the signed contract to the legal team...'' \<and>
         sub_title m \<noteq> take 50 sample_text @ ''...'' \<and>
         length (sub_title m) = 52)"
  by (simp add: handleTaskAction_add_def sample_pending_def sample_text_def trim_def
      is_js_space_def)

section \<open>Synchronising from the backend\<close>

lemma sync_loop_inserted:
  "sync_loop ids clock k bts (ts, n) =
     (rev (inserted ids clock k bts) @ ts, n + length (inserted ids clock k bts))"
  by (induction bts arbitrary: k ts n) auto

lemma synced_task_id: "task_id (synced_task bt now) = bt_id bt"
  by (simp add: synced_task_def)

lemma synced_task_status: "status (synced_task bt now) = Pending"
  by (simp add: synced_task_def)

lemma inserted_ids: "t \<in> set (inserted ids clock k bts) \<Longrightarrow> task_id t \<notin> ids"
  by (induction bts arbitrary: k) (auto simp: synced_task_id split: if_splits)

lemma inserted_pending: "t \<in> set (inserted ids clock k bts) \<Longrightarrow> status t = Pending"
  by (induction bts arbitrary: k) (auto simp: synced_task_status split: if_splits)

lemma inserted_known: "bt_id ` set bts \<subseteq> ids \<Longrightarrow> inserted ids clock k bts = []"
  by (induction bts arbitrary: k) auto

lemma inserted_covers:
  "b \<in> set bts \<Longrightarrow> bt_id b \<in> ids \<union> task_id ` set (inserted ids clock k bts)"
proof (induction bts arbitrary: k)
  case Nil
  then show ?case by simp
next
  case (Cons x xs)
  show ?case
  proof (cases "b = x")
    case True
    show ?thesis
    proof (cases "bt_id x \<in> ids")
      case True
      with \<open>b = x\<close> show ?thesis by simp
    next
      case False
      have "task_id (synced_task x (clock k)) = bt_id x" by (rule synced_task_id)
      with False \<open>b = x\<close> show ?thesis by (simp add: image_iff)
    qed
  next
    case False
    with Cons.prems have "b \<in> set xs" by simp
    from Cons.IH [OF this, of "Suc k"] show ?thesis by auto
  qed
qed

lemma syncFromBackend_ok:
  assumes "ok response" and "json response = Returned bts"
  shows "syncFromBackend st env (Returned response) clock =
    (succeeded
       \<lparr>added := Some (length (inserted (set (map task_id (get_tasks st))) clock 0 bts)),
        total := Some (length (inserted (set (map task_id (get_tasks st))) clock 0 bts)
                       + length (get_tasks st))\<rparr>,
     set_tasks (rev (inserted (set (map task_id (get_tasks st))) clock 0 bts) @ get_tasks st) st,
     [\<lparr>req_method = ''GET'', req_url = backendUrl st env @ ''/api/tasks?status=pending'',
       req_body = []\<rparr>])"
  using assms by (simp add: syncFromBackend_def sync_loop_inserted Let_def)

lemma get_tasks_set_tasks: "get_tasks (set_tasks ts st) = ts"
  by (simp add: get_tasks_def set_tasks_def)

lemma syncFromBackend_result:
  "(\<exists>msg. syncFromBackend st env fetched clock =
           (failure msg, st,
            [\<lparr>req_method = ''GET'', req_url = backendUrl st env @ ''/api/tasks?status=pending'',
              req_body = []\<rparr>])) \<or>
   (\<exists>response bts. fetched = Returned response \<and> ok response \<and> json response = Returned bts)"
proof (cases fetched)
  case (Threw msg)
  then show ?thesis by (auto simp: syncFromBackend_def)
next
  case (Returned response)
  show ?thesis
  proof (cases "ok response")
    case False
    with Returned show ?thesis by (auto simp: syncFromBackend_def)
  next
    case True
    show ?thesis
    proof (cases "json response")
      case (Threw msg)
      with Returned True show ?thesis by (auto simp: syncFromBackend_def)
    next
      case (Returned bts)
      with \<open>fetched = Returned response\<close> True show ?thesis by blast
    qed
  qed
qed

text \<open>
  C4. A successful \<open>syncFromBackend\<close> stores the old list with new records in front;
  no new record has an id of the old list; \<open>added\<close> is the number of new records and
  \<open>total\<close> the length of the stored list; and a further sync of the same backend
  answer adds nothing. A failed one stores nothing and reports no count.
\<close>

theorem syncFromBackend_dedup:
  assumes "syncFromBackend st env fetched clock = (r, st', reqs)"
  shows "(success r \<longrightarrow>
           (\<exists>ins. get_tasks st' = ins @ get_tasks st \<and>
                  (\<forall>t \<in> set ins. task_id t \<notin> task_id ` set (get_tasks st)) \<and>
                  added r = Some (length ins) \<and>
                  total r = Some (length (get_tasks st'))) \<and>
           (\<forall>clock'. added (fst (syncFromBackend st' env fetched clock')) = Some 0 \<and>
              get_tasks (fst (snd (syncFromBackend st' env fetched clock'))) = get_tasks st')) \<and>
         (\<not> success r \<longrightarrow> st' = st \<and> added r = None)"
proof (cases "success r")
  case False
  have "\<exists>msg. syncFromBackend st env fetched clock =
           (failure msg, st,
            [\<lparr>req_method = ''GET'', req_url = backendUrl st env @ ''/api/tasks?status=pending'',
              req_body = []\<rparr>])"
  proof (rule ccontr)
    assume "\<not> ?thesis"
    with syncFromBackend_result [of st env fetched clock] obtain response bts
      where "fetched = Returned response" "ok response" "json response = Returned bts"
      by blast
    with syncFromBackend_ok [of response bts st env clock] assms
    have "success r" by (auto simp: succeeded_def)
    with False show False by simp
  qed
  with assms obtain msg where "r = failure msg" and "st' = st" by auto
  then have "st' = st \<and> added r = None" by (simp add: failure_def)
  with False show ?thesis by simp
next
  case True
  have "\<exists>response bts. fetched = Returned response \<and> ok response \<and> json response = Returned bts"
  proof (rule ccontr)
    assume "\<not> ?thesis"
    with syncFromBackend_result [of st env fetched clock] obtain msg
      where "syncFromBackend st env fetched clock =
           (failure msg, st,
            [\<lparr>req_method = ''GET'', req_url = backendUrl st env @ ''/api/tasks?status=pending'',
              req_body = []\<rparr>])"
      by blast
    with assms have "r = failure msg" by simp
    with True show False by (simp add: failure_def)
  qed
  then obtain response bts
    where f: "fetched = Returned response" and k: "ok response" and j: "json response = Returned bts"
    by blast
  define ids where "ids = set (map task_id (get_tasks st))"
  define ins where "ins = rev (inserted ids clock 0 bts)"
  from assms f syncFromBackend_ok [OF k j, of st env clock]
  have r: "r = succeeded\<lparr>added := Some (length ins), total := Some (length ins + length (get_tasks st))\<rparr>"
    and st': "st' = set_tasks (ins @ get_tasks st) st"
    by (simp_all add: ids_def ins_def)
  from st' have tasks': "get_tasks st' = ins @ get_tasks st"
    by (simp add: get_tasks_set_tasks)
  have fresh: "\<forall>t \<in> set ins. task_id t \<notin> task_id ` set (get_tasks st)"
    using inserted_ids [of _ ids clock 0 bts] by (auto simp: ins_def ids_def)
  have counts: "added r = Some (length ins) \<and> total r = Some (length (get_tasks st'))"
    by (simp add: r tasks')
  have again: "added (fst (syncFromBackend st' env fetched clock')) = Some 0 \<and>
      get_tasks (fst (snd (syncFromBackend st' env fetched clock'))) = get_tasks st'" for clock'
  proof -
    have "bt_id ` set bts \<subseteq> set (map task_id (get_tasks st'))"
    proof
      fix i assume "i \<in> bt_id ` set bts"
      then obtain b where "b \<in> set bts" "i = bt_id b" by auto
      with inserted_covers [of b bts ids clock 0]
      show "i \<in> set (map task_id (get_tasks st'))"
        by (auto simp: tasks' ins_def ids_def)
    qed
    then have "inserted (set (map task_id (get_tasks st'))) clock' 0 bts = []"
      by (rule inserted_known)
    with syncFromBackend_ok [OF k j, of st' env clock'] f show ?thesis
      by (simp add: get_tasks_set_tasks)
  qed
  from True tasks' fresh counts again show ?thesis by blast
qed

theorem syncFromBackend_dedup_witness:
  "success (fst (syncFromBackend (sample_storage [sample_task ''task-1'' Declined]) None
                   sample_fetched (\<lambda>k. ''2024-01-02''))) \<and>
   added (fst (syncFromBackend (sample_storage [sample_task ''task-1'' Declined]) None
                   sample_fetched (\<lambda>k. ''2024-01-02''))) = Some 1 \<and>
   added (fst (syncFromBackend
                 (fst (snd (syncFromBackend (sample_storage [sample_task ''task-1'' Declined])
                              None sample_fetched (\<lambda>k. ''2024-01-02''))))
                 None sample_fetched (\<lambda>k. ''2024-01-03''))) = Some 0 \<and>
   \<not> success (fst (syncFromBackend (sample_storage [sample_task ''task-1'' Declined]) None
                   (Threw ''network error'') (\<lambda>k. ''2024-01-02''))) \<and>
   fst (snd (syncFromBackend (sample_storage [sample_task ''task-1'' Declined]) None
                   (Threw ''network error'') (\<lambda>k. ''2024-01-02''))) =
     sample_storage [sample_task ''task-1'' Declined]"
proof -
  define X where "X = syncFromBackend (sample_storage [sample_task ''task-1'' Declined]) None
                   sample_fetched (\<lambda>k. ''2024-01-02'')"
  have e: "syncFromBackend (sample_storage [sample_task ''task-1'' Declined]) None
             sample_fetched (\<lambda>k. ''2024-01-02'') = (fst X, fst (snd X), snd (snd X))"
    by (simp add: X_def)
  have v: "fst X = succeeded\<lparr>added := Some 1, total := Some 2\<rparr>"
    unfolding X_def
    by (simp add: syncFromBackend_def sample_fetched_def sample_storage_def get_tasks_def
        sample_task_def sample_backend_task_def Let_def)
  then have s: "success (fst X)" and a: "added (fst X) = Some 1"
    by (simp_all add: succeeded_def)
  from syncFromBackend_dedup [OF e] s
  have "\<forall>clock'. added (fst (syncFromBackend (fst (snd X)) None sample_fetched clock')) = Some 0 \<and>
          get_tasks (fst (snd (syncFromBackend (fst (snd X)) None sample_fetched clock'))) =
          get_tasks (fst (snd X))"
    by blast
  then have again: "added (fst (syncFromBackend (fst (snd X)) None sample_fetched
      (\<lambda>k. ''2024-01-03''))) = Some 0"
    by blast
  define Y where "Y = syncFromBackend (sample_storage [sample_task ''task-1'' Declined]) None
                   (Threw ''network error'') (\<lambda>k. ''2024-01-02'')"
  have ey: "syncFromBackend (sample_storage [sample_task ''task-1'' Declined]) None
             (Threw ''network error'') (\<lambda>k. ''2024-01-02'') = (fst Y, fst (snd Y), snd (snd Y))"
    by (simp add: Y_def)
  have f: "\<not> success (fst Y)"
    unfolding Y_def by (simp add: syncFromBackend_def failure_def)
  from syncFromBackend_dedup [OF ey] f
  have "fst (snd Y) = sample_storage [sample_task ''task-1'' Declined]"
    by blast
  with f s a again show ?thesis unfolding X_def Y_def by simp
qed

text \<open>
  C8. Whatever the backend answers, \<open>syncFromBackend\<close> leaves the tasks that were
  stored as they were and in their order, behind the records it puts in front; every
  record it puts in has status \<open>pending\<close>; the configured backend address stays.
\<close>

theorem syncFromBackend_frame:
  "\<exists>ins. get_tasks (fst (snd (syncFromBackend st env fetched clock))) = ins @ get_tasks st \<and>
         (\<forall>t \<in> set ins. status t = Pending) \<and>
         flaskBackendUrl (fst (snd (syncFromBackend st env fetched clock))) = flaskBackendUrl st"
proof -
  from syncFromBackend_result [of st env fetched clock]
  consider (failed) "fst (snd (syncFromBackend st env fetched clock)) = st"
    | (fetched) response bts where "fetched = Returned response" "ok response"
        "json response = Returned bts"
    by fastforce
  then show ?thesis
  proof cases
    case failed
    then show ?thesis by simp
  next
    case (fetched response bts)
    then have f: "fetched = Returned response" and k: "ok response"
      and j: "json response = Returned bts"
      by simp_all
  define ins where "ins = rev (inserted (set (map task_id (get_tasks st))) clock 0 bts)"
  from f syncFromBackend_ok [OF k j, of st env clock]
  have "fst (snd (syncFromBackend st env fetched clock)) = set_tasks (ins @ get_tasks st) st"
    by (simp add: ins_def)
  then have "get_tasks (fst (snd (syncFromBackend st env fetched clock))) = ins @ get_tasks st"
    and "flaskBackendUrl (fst (snd (syncFromBackend st env fetched clock))) = flaskBackendUrl st"
    by (simp_all add: get_tasks_def set_tasks_def)
  moreover have "\<forall>t \<in> set ins. status t = Pending"
    using inserted_pending by (auto simp: ins_def)
  ultimately show ?thesis by blast
  qed
qed

theorem syncFromBackend_frame_witness:
  "\<exists>ins. get_tasks (fst (snd (syncFromBackend (sample_storage [sample_task ''task-1'' Declined])
                                None sample_fetched (\<lambda>k. ''2024-01-02'')))) =
           ins @ [sample_task ''task-1'' Declined] \<and>
         map status ins = [Pending] \<and> map task_id ins = [''task-2'']"
proof -
  have v: "get_tasks (fst (snd (syncFromBackend (sample_storage [sample_task ''task-1'' Declined])
                                None sample_fetched (\<lambda>k. ''2024-01-02'')))) =
           [synced_task (sample_backend_task ''task-2'') ''2024-01-02''] @
           [sample_task ''task-1'' Declined]"
    by (simp add: syncFromBackend_def sample_fetched_def sample_storage_def get_tasks_def
        set_tasks_def sample_task_def sample_backend_task_def Let_def)
  from syncFromBackend_frame [of "sample_storage [sample_task ''task-1'' Declined]" None
      sample_fetched "\<lambda>k. ''2024-01-02''"]
  obtain ins where
    "get_tasks (fst (snd (syncFromBackend (sample_storage [sample_task ''task-1'' Declined])
                            None sample_fetched (\<lambda>k. ''2024-01-02'')))) =
       ins @ get_tasks (sample_storage [sample_task ''task-1'' Declined])"
    by blast
  with v have "ins = [synced_task (sample_backend_task ''task-2'') ''2024-01-02'']"
    by (simp add: get_tasks_def sample_storage_def)
  with v show ?thesis
    by (simp add: synced_task_id synced_task_status sample_backend_task_def)
qed

section \<open>Status transitions\<close>


















section \<open>Waking the backend\<close>

lemma on_awake_waking: "waking c p \<Longrightarrow> woken c (on_awake p)"
  by (simp add: waking_def woken_def on_awake_def resolve_def updateStatus_def)

lemma on_awake_woken: "woken c p \<Longrightarrow> woken c (on_awake p)"
  by (simp add: woken_def on_awake_def resolve_def updateStatus_def)

lemma waking_frame:
  "waking c (p\<lparr>interval_checks := n\<rparr>) = waking c p"
  "waking c (p\<lparr>immediate_check := b\<rparr>) = waking c p"
  "waking c (p\<lparr>attempt := k, attemptText := t, interval_checks := n\<rparr>) = waking c p"
  by (simp_all add: waking_def)

lemma woken_frame:
  "woken c (p\<lparr>interval_checks := n\<rparr>) = woken c p"
  "woken c (p\<lparr>immediate_check := b\<rparr>) = woken c p"
  by (simp_all add: woken_def)

lemma step_waking:
  assumes "waking c p" and "step p e = Some p'"
  shows "if awake_event e then woken c p' else waking c p'"
proof (cases e)
  case IntervalFires
  with assms show ?thesis by (auto simp: waking_def split: if_splits)
next
  case (IntervalCheckDone awake)
  with assms show ?thesis
    by (auto simp: Let_def waking_frame on_awake_waking split: if_splits)
next
  case (ImmediateCheckDone awake)
  with assms show ?thesis
    by (auto simp: Let_def waking_frame on_awake_waking split: if_splits)
qed

lemma step_woken:
  assumes "woken c p" and "step p e = Some p'"
  shows "woken c p'"
proof (cases e)
  case IntervalFires
  with assms show ?thesis by (auto simp: woken_def split: if_splits)
next
  case (IntervalCheckDone awake)
  with assms show ?thesis
    by (auto simp: Let_def woken_frame on_awake_woken split: if_splits)
next
  case (ImmediateCheckDone awake)
  with assms show ?thesis
    by (auto simp: Let_def woken_frame on_awake_woken split: if_splits)
qed

lemma run_woken: "woken c p \<Longrightarrow> run p es = Some p' \<Longrightarrow> woken c p'"
proof (induction es arbitrary: p)
  case Nil
  then show ?case by simp
next
  case (Cons e es)
  from Cons.prems(2) obtain q where q: "step p e = Some q" and r: "run q es = Some p'"
    by (auto split: option.splits)
  from step_woken [OF Cons.prems(1) q] have "woken c q" .
  from Cons.IH [OF this r] show ?case .
qed

lemma run_waking:
  "waking c p \<Longrightarrow> run p es = Some p' \<Longrightarrow>
   (if \<exists>e \<in> set es. awake_event e then woken c p' else waking c p')"
proof (induction es arbitrary: p)
  case Nil
  then show ?case by simp
next
  case (Cons e es)
  from Cons.prems(2) obtain q where q: "step p e = Some q" and r: "run q es = Some p'"
    by (auto split: option.splits)
  show ?case
  proof (cases "awake_event e")
    case True
    with step_waking [OF Cons.prems(1) q] have "woken c q" by simp
    from run_woken [OF this r] True show ?thesis by simp
  next
    case False
    with step_waking [OF Cons.prems(1) q] have "waking c q" by simp
    from Cons.IH [OF this r] False show ?thesis by simp
  qed
qed

lemma wakeUpBackend_asleep: "waking (loadTasks_calls p) (wakeUpBackend False p)"
  by (simp add: wakeUpBackend_def waking_def)

text \<open>
  C5. After \<open>wakeUpBackend\<close> found the backend asleep, whatever the order in which the
  timer fires and the health checks end: once a check has succeeded the promise is
  fulfilled with \<open>true\<close>, the caller has gone on exactly once, the timer is cleared, the
  stand-by screen is hidden and the main screen shows, also when further checks succeed
  afterwards; until a check succeeds the popup keeps waiting. When the first check
  already succeeds, the promise is fulfilled at once and the screens are not touched.
  A second wake signal changes nothing.
\<close>

theorem wakeUpBackend_resolves_once:
  assumes "run (wakeUpBackend False p0) es = Some p"
  shows "loadTasks_calls p \<le> Suc (loadTasks_calls p0) \<and>
         ((\<exists>e \<in> set es. awake_event e) \<longrightarrow>
            promise p = Some True \<and> loadTasks_calls p = Suc (loadTasks_calls p0) \<and>
            \<not> checkInterval p \<and> wakeupScreen p = DisplayNone \<and> mainContent p = DisplayBlock) \<and>
         (\<not> (\<exists>e \<in> set es. awake_event e) \<longrightarrow>
            promise p = None \<and> loadTasks_calls p = loadTasks_calls p0 \<and>
            checkInterval p \<and> wakeupScreen p = DisplayFlex) \<and>
         promise (wakeUpBackend True p0) = Some True \<and>
         loadTasks_calls (wakeUpBackend True p0) = Suc (loadTasks_calls p0) \<and>
         checkInterval (wakeUpBackend True p0) = checkInterval p0 \<and>
         wakeupScreen (wakeUpBackend True p0) = wakeupScreen p0 \<and>
         on_awake (on_awake p) = on_awake p"
proof -
  from run_waking [OF wakeUpBackend_asleep assms]
  have phases: "if \<exists>e \<in> set es. awake_event e
      then woken (loadTasks_calls p0) p else waking (loadTasks_calls p0) p" .
  have at_once: "promise (wakeUpBackend True p0) = Some True \<and>
         loadTasks_calls (wakeUpBackend True p0) = Suc (loadTasks_calls p0) \<and>
         checkInterval (wakeUpBackend True p0) = checkInterval p0 \<and>
         wakeupScreen (wakeUpBackend True p0) = wakeupScreen p0 \<and>
         on_awake (on_awake p) = on_awake p"
    by (simp add: wakeUpBackend_def resolve_def on_awake_def updateStatus_def
        split: option.splits)
  show ?thesis
  proof (cases "\<exists>e \<in> set es. awake_event e")
    case True
    with phases have "woken (loadTasks_calls p0) p" by simp
    then have "promise p = Some True \<and> loadTasks_calls p = Suc (loadTasks_calls p0) \<and>
        \<not> checkInterval p \<and> wakeupScreen p = DisplayNone \<and> mainContent p = DisplayBlock"
      by (simp add: woken_def)
    with True at_once show ?thesis by simp
  next
    case False
    with phases have "waking (loadTasks_calls p0) p" by simp
    then have "promise p = None \<and> loadTasks_calls p = loadTasks_calls p0 \<and>
        checkInterval p \<and> wakeupScreen p = DisplayFlex"
      by (simp add: waking_def)
    with False at_once show ?thesis by simp
  qed
qed

theorem wakeUpBackend_resolves_once_witness:
  "(\<exists>p. run (wakeUpBackend False popup_loaded)
           [IntervalFires, ImmediateCheckDone True, IntervalCheckDone True] = Some p \<and>
        promise p = Some True \<and> loadTasks_calls p = 1 \<and> \<not> checkInterval p \<and>
        wakeupScreen p = DisplayNone \<and> mainContent p = DisplayBlock) \<and>
   (\<exists>p. run (wakeUpBackend False popup_loaded)
           [ImmediateCheckDone False, IntervalFires, IntervalCheckDone False] = Some p \<and>
        promise p = None \<and> loadTasks_calls p = 0 \<and> checkInterval p \<and>
        wakeupScreen p = DisplayFlex)"
proof -
  have "\<exists>p. run (wakeUpBackend False popup_loaded)
           [IntervalFires, ImmediateCheckDone True, IntervalCheckDone True] = Some p"
    by (simp add: wakeUpBackend_def popup_loaded_def on_awake_def resolve_def
        updateStatus_def Let_def)
  then obtain p where r: "run (wakeUpBackend False popup_loaded)
           [IntervalFires, ImmediateCheckDone True, IntervalCheckDone True] = Some p" ..
  have a: "\<exists>e \<in> set [IntervalFires, ImmediateCheckDone True, IntervalCheckDone True].
      awake_event e" by simp
  from wakeUpBackend_resolves_once [OF r] a
  have "promise p = Some True \<and> loadTasks_calls p = Suc (loadTasks_calls popup_loaded) \<and>
        \<not> checkInterval p \<and> wakeupScreen p = DisplayNone \<and> mainContent p = DisplayBlock"
    by blast
  with r have both: "\<exists>p. run (wakeUpBackend False popup_loaded)
           [IntervalFires, ImmediateCheckDone True, IntervalCheckDone True] = Some p \<and>
        promise p = Some True \<and> loadTasks_calls p = 1 \<and> \<not> checkInterval p \<and>
        wakeupScreen p = DisplayNone \<and> mainContent p = DisplayBlock"
    by (auto simp: popup_loaded_def)
  have "\<exists>q. run (wakeUpBackend False popup_loaded)
           [ImmediateCheckDone False, IntervalFires, IntervalCheckDone False] = Some q"
    by (simp add: wakeUpBackend_def popup_loaded_def Let_def)
  then obtain q where rq: "run (wakeUpBackend False popup_loaded)
           [ImmediateCheckDone False, IntervalFires, IntervalCheckDone False] = Some q" ..
  have na: "\<not> (\<exists>e \<in> set [ImmediateCheckDone False, IntervalFires, IntervalCheckDone False].
      awake_event e)" by simp
  from wakeUpBackend_resolves_once [OF rq] na
  have "promise q = None \<and> loadTasks_calls q = loadTasks_calls popup_loaded \<and>
        checkInterval q \<and> wakeupScreen q = DisplayFlex"
    by blast
  with rq have none: "\<exists>p. run (wakeUpBackend False popup_loaded)
           [ImmediateCheckDone False, IntervalFires, IntervalCheckDone False] = Some p \<and>
        promise p = None \<and> loadTasks_calls p = 0 \<and> checkInterval p \<and>
        wakeupScreen p = DisplayFlex"
    by (auto simp: popup_loaded_def)
  from both none show ?thesis by blast
qed

end
